theory Spec2Isabelle
  imports Main "HOL-Library.Word"
begin

unbundle bit_operations_syntax

section \<open>AI Task Optimizer: mood history, stress monitor and task recommender\<close>

text \<open>
  A shallow embedding of \<^verbatim>\<open>final_AI_Task_Optimizer.py\<close>. The functions of the script that
  the specification talks about are \<^verbatim>\<open>monitor_stress\<close>, \<^verbatim>\<open>recommend_task\<close>,
  \<^verbatim>\<open>anonymize_data\<close>, \<^verbatim>\<open>save_mood_history\<close>, \<^verbatim>\<open>load_mood_history\<close>, the
  counting step of \<^verbatim>\<open>plot_team_mood\<close> and the loop of \<^verbatim>\<open>main\<close>.

  Modelling decisions, valid for the whole theory:
  \<^item> Python values are the values \<^verbatim>\<open>json.load\<close> can produce (the history is read from a
    JSON file, so a record can be any of them) except floats: floating point is outside the model.
  \<^item> A \<^verbatim>\<open>dict\<close> is an association list in insertion order; a key is looked up with
    \<open>map_of\<close>.
  \<^item> A \<^verbatim>\<open>str\<close> is a \<open>string\<close> of ASCII characters. Case mapping is defined on ASCII
    letters and leaves every other character alone.
  \<^item> Every \<^verbatim>\<open>raise\<close> is a value \<open>Inl e\<close> of a sum type; a function that prints returns
    what it put out, in order, as a list of \<open>event\<close>s.
  \<^item> \<^verbatim>\<open>json\<close>, \<^verbatim>\<open>hashlib\<close>, \<^verbatim>\<open>random\<close> and \<^verbatim>\<open>collections.Counter\<close> are the
    standard library. A file is kept by what \<^verbatim>\<open>json.load\<close> makes of its text (a JSON
    document is the value it decodes to, and \<^verbatim>\<open>json.dump\<close> writes the document of the value
    it is given), SHA-256 is written out, a random draw is an argument. A document that
    \<^verbatim>\<open>json.load\<close> decodes to a value with a float or with text beyond ASCII is not among the
    files of the model.
\<close>

subsection \<open>Python values and exceptions\<close>

datatype pyval =
    PNone
  | PBool bool
  | PInt int
  | PStr string
  | PList "pyval list"
  | PDict "(string \<times> pyval) list"

datatype py_exn =
    KeyError string
  | TypeError
  | IndexError
  | OSError
  | UnicodeDecodeError
  | JSONDecodeError
  | ValueError
  | RecursionError

text \<open>
  What the script puts out: the lines it prints (the comment gives the text of the source) and
  the chart.
\<close>

datatype event =
    StressAlert               \<comment> \<open>\<^verbatim>\<open>ALERT: Prolonged stress detected! Notifying HR.\<close>\<close>
  | SaveOk                    \<comment> \<open>\<^verbatim>\<open>Mood history successfully updated with anonymized data!\<close>\<close>
  | SaveError py_exn          \<comment> \<open>\<^verbatim>\<open>Error saving mood history: {e}\<close>\<close>
  | CorruptWarning            \<comment> \<open>\<^verbatim>\<open>Warning: mood_history.json is corrupted or empty. Resetting...\<close>\<close>
  | NoHistoryToPlot           \<comment> \<open>\<^verbatim>\<open>No mood history available to plot.\<close>\<close>
  | NoValidMoodData           \<comment> \<open>\<^verbatim>\<open>No valid mood data available for plotting.\<close>\<close>
  | EmployeeLine string string  \<comment> \<open>\<^verbatim>\<open>Employee: {employee_id} | Detected Mood: {detected_mood}\<close>\<close>
  | TaskLine string           \<comment> \<open>\<^verbatim>\<open>Recommended Task: {...}\<close>\<close>
  | BarChart "(pyval \<times> nat \<times> string) list"  \<comment> \<open>\<^verbatim>\<open>plt.bar(moods, counts, color=bar_colors)\<close>\<close>

text \<open>\<^verbatim>\<open>isinstance(entry, dict)\<close>\<close>

fun isinstance_dict :: "pyval \<Rightarrow> bool" where
  "isinstance_dict (PDict d) = True"
| "isinstance_dict _ = False"

text \<open>
  \<^verbatim>\<open>key in entry\<close>, used by the source only behind \<^verbatim>\<open>isinstance(entry, dict)\<close>, so only
  the dictionary case is ever evaluated.
\<close>

fun py_in :: "string \<Rightarrow> pyval \<Rightarrow> bool" where
  "py_in k (PDict d) = (map_of d k \<noteq> None)"
| "py_in k _ = False"

text \<open>
  \<^verbatim>\<open>entry[key]\<close> with a string key: a dictionary raises \<^verbatim>\<open>KeyError\<close> when the key is
  missing; a list or a string wants an integer index and every other value is not subscriptable,
  both a \<^verbatim>\<open>TypeError\<close>.
\<close>

fun py_getitem :: "pyval \<Rightarrow> string \<Rightarrow> py_exn + pyval" where
  "py_getitem (PDict d) k = (case map_of d k of None \<Rightarrow> Inl (KeyError k) | Some v \<Rightarrow> Inr v)"
| "py_getitem _ k = Inl TypeError"

text \<open>
  A list comprehension \<^verbatim>\<open>[f(x) for x in xs]\<close> whose body can raise: the elements are
  evaluated from the left and the first exception leaves the comprehension.
\<close>

fun comprehension :: "('a \<Rightarrow> py_exn + 'b) \<Rightarrow> 'a list \<Rightarrow> py_exn + 'b list" where
  "comprehension f [] = Inr []"
| "comprehension f (x # xs) =
     (case f x of
        Inl e \<Rightarrow> Inl e
      | Inr y \<Rightarrow> (case comprehension f xs of Inl e \<Rightarrow> Inl e | Inr ys \<Rightarrow> Inr (y # ys)))"

text \<open>
  The slice \<^verbatim>\<open>xs[i:]\<close>: a negative start counts from the end and is clipped at the
  beginning of the list, a start beyond the end gives the empty list.
\<close>

definition py_slice_from :: "int \<Rightarrow> 'a list \<Rightarrow> 'a list" where
  "py_slice_from i xs =
     (let n = int (length xs);
          start = (if i < 0 then max 0 (n + i) else min i n)
      in drop (nat start) xs)"

subsection \<open>Stress monitor\<close>

text \<open>
  \<^verbatim>\<open>
  def monitor_stress(mood_history):
      stress_threshold = 3
      recent_moods = [entry["mood"] for entry in mood_history[-5:]
                      if isinstance(entry, dict) and "mood" in entry]
      stressed_count = sum(1 for mood in recent_moods if mood == "Sad")
      if stressed_count >= stress_threshold:
          print("ALERT: Prolonged stress detected! Notifying HR.")
  \<close>
  The function has no \<^verbatim>\<open>return\<close>: the caller gets \<^verbatim>\<open>None\<close>. The model returns what was
  printed together with that value.
\<close>

definition stress_threshold :: nat where
  "stress_threshold = 3"

definition recent_moods :: "pyval list \<Rightarrow> py_exn + pyval list" where
  "recent_moods mood_history =
     comprehension (\<lambda>entry. py_getitem entry ''mood'')
       (filter (\<lambda>entry. isinstance_dict entry \<and> py_in ''mood'' entry)
          (py_slice_from (- 5) mood_history))"

definition stressed_count :: "pyval list \<Rightarrow> nat" where
  "stressed_count moods = length (filter (\<lambda>mood. mood = PStr ''Sad'') moods)"

definition monitor_stress :: "pyval list \<Rightarrow> py_exn + (event list \<times> pyval)" where
  "monitor_stress mood_history =
     (case recent_moods mood_history of
        Inl e \<Rightarrow> Inl e
      | Inr moods \<Rightarrow>
          if stressed_count moods \<ge> stress_threshold
          then Inr ([StressAlert], PNone)
          else Inr ([], PNone))"

text \<open>Truth value of a Python object, as \<^verbatim>\<open>if x:\<close> takes it.\<close>

fun py_truthy :: "pyval \<Rightarrow> bool" where
  "py_truthy PNone = False"
| "py_truthy (PBool b) = b"
| "py_truthy (PInt i) = (i \<noteq> 0)"
| "py_truthy (PStr s) = (s \<noteq> [])"
| "py_truthy (PList xs) = (xs \<noteq> [])"
| "py_truthy (PDict d) = (d \<noteq> [])"

subsection \<open>Task recommender\<close>

text \<open>
  \<^verbatim>\<open>str.capitalize()\<close>: the first character in upper case, the rest in lower case.
\<close>

definition ascii_upper :: "char \<Rightarrow> char" where
  "ascii_upper c =
     (case map_of (zip ''abcdefghijklmnopqrstuvwxyz'' ''ABCDEFGHIJKLMNOPQRSTUVWXYZ'') c of
        Some u \<Rightarrow> u | None \<Rightarrow> c)"

definition ascii_lower :: "char \<Rightarrow> char" where
  "ascii_lower c =
     (case map_of (zip ''ABCDEFGHIJKLMNOPQRSTUVWXYZ'' ''abcdefghijklmnopqrstuvwxyz'') c of
        Some l \<Rightarrow> l | None \<Rightarrow> c)"

fun py_capitalize :: "string \<Rightarrow> string" where
  "py_capitalize [] = []"
| "py_capitalize (c # cs) = ascii_upper c # map ascii_lower cs"

text \<open>
  \<^verbatim>\<open>random.choice(seq)\<close> is \<^verbatim>\<open>seq[self._randbelow(len(seq))]\<close> and raises
  \<^verbatim>\<open>IndexError\<close> on an empty sequence. The number \<open>r\<close> is what the generator draws; it is
  reduced to an index below the length.
\<close>

definition random_choice :: "nat \<Rightarrow> 'a list \<Rightarrow> py_exn + 'a" where
  "random_choice r xs = (if xs = [] then Inl IndexError else Inr (xs ! (r mod length xs)))"

text \<open>
  \<^verbatim>\<open>
  def recommend_task(mood):
      mood = mood.capitalize()
      tasks = { "Happy": [...], "Sad": [...], "Fear": [...], "Angry": [...], "Surprise": [...] }
      return random.choice(tasks.get(mood, ["No suggestion available"]))
  \<close>
\<close>

definition tasks :: "(string \<times> string list) list" where
  "tasks =
     [(''Happy'', [''Collaborate on a new project'', ''Share positivity with the team'']),
      (''Sad'', [''Take a break'', ''Listen to music'', ''Talk to a friend'']),
      (''Fear'', [''Practice deep breathing'', ''Engage in light work'', ''Seek support'']),
      (''Angry'', [''Cool down with a short walk'', ''Work on solo tasks'']),
      (''Surprise'', [''Reflect on new insights'', ''Plan next steps''])]"

definition tasks_get :: "string \<Rightarrow> string list \<Rightarrow> string list" where
  "tasks_get mood dflt = (case map_of tasks mood of Some ts \<Rightarrow> ts | None \<Rightarrow> dflt)"

definition recommend_task :: "nat \<Rightarrow> string \<Rightarrow> py_exn + string" where
  "recommend_task r mood =
     random_choice r (tasks_get (py_capitalize mood) [''No suggestion available''])"

subsection \<open>Anonymizer\<close>

text \<open>SHA-256 (FIPS 180-4) on bytes, as \<^verbatim>\<open>hashlib.sha256\<close> computes it.\<close>

type_synonym w32 = "32 word"

definition rotr :: "nat \<Rightarrow> w32 \<Rightarrow> w32" where
  "rotr n x = or (drop_bit n x) (push_bit (32 - n) x)"

definition ch :: "w32 \<Rightarrow> w32 \<Rightarrow> w32 \<Rightarrow> w32" where
  "ch x y z = xor (and x y) (and (not x) z)"

definition maj :: "w32 \<Rightarrow> w32 \<Rightarrow> w32 \<Rightarrow> w32" where
  "maj x y z = xor (xor (and x y) (and x z)) (and y z)"

definition big_sigma0 :: "w32 \<Rightarrow> w32" where
  "big_sigma0 x = xor (xor (rotr 2 x) (rotr 13 x)) (rotr 22 x)"

definition big_sigma1 :: "w32 \<Rightarrow> w32" where
  "big_sigma1 x = xor (xor (rotr 6 x) (rotr 11 x)) (rotr 25 x)"

definition small_sigma0 :: "w32 \<Rightarrow> w32" where
  "small_sigma0 x = xor (xor (rotr 7 x) (rotr 18 x)) (drop_bit 3 x)"

definition small_sigma1 :: "w32 \<Rightarrow> w32" where
  "small_sigma1 x = xor (xor (rotr 17 x) (rotr 19 x)) (drop_bit 10 x)"

definition sha256_k :: "w32 list" where
  "sha256_k =
    [0x428A2F98, 0x71374491, 0xB5C0FBCF, 0xE9B5DBA5, 0x3956C25B, 0x59F111F1, 0x923F82A4, 0xAB1C5ED5,
     0xD807AA98, 0x12835B01, 0x243185BE, 0x550C7DC3, 0x72BE5D74, 0x80DEB1FE, 0x9BDC06A7, 0xC19BF174,
     0xE49B69C1, 0xEFBE4786, 0x0FC19DC6, 0x240CA1CC, 0x2DE92C6F, 0x4A7484AA, 0x5CB0A9DC, 0x76F988DA,
     0x983E5152, 0xA831C66D, 0xB00327C8, 0xBF597FC7, 0xC6E00BF3, 0xD5A79147, 0x06CA6351, 0x14292967,
     0x27B70A85, 0x2E1B2138, 0x4D2C6DFC, 0x53380D13, 0x650A7354, 0x766A0ABB, 0x81C2C92E, 0x92722C85,
     0xA2BFE8A1, 0xA81A664B, 0xC24B8B70, 0xC76C51A3, 0xD192E819, 0xD6990624, 0xF40E3585, 0x106AA070,
     0x19A4C116, 0x1E376C08, 0x2748774C, 0x34B0BCB5, 0x391C0CB3, 0x4ED8AA4A, 0x5B9CCA4F, 0x682E6FF3,
     0x748F82EE, 0x78A5636F, 0x84C87814, 0x8CC70208, 0x90BEFFFA, 0xA4506CEB, 0xBEF9A3F7, 0xC67178F2]"

definition sha256_h0 :: "w32 list" where
  "sha256_h0 =
    [0x6a09e667, 0xbb67ae85, 0x3c6ef372, 0xa54ff53a, 0x510e527f, 0x9b05688c, 0x1f83d9ab, 0x5be0cd19]"

type_synonym byte = "8 word"

text \<open>Big-endian bytes of a word, the last \<open>n\<close> of them.\<close>

definition be_bytes :: "nat \<Rightarrow> 'a::len word \<Rightarrow> byte list" where
  "be_bytes n v = map (\<lambda>i. ucast (drop_bit (8 * i) v)) (rev [0..<n])"

definition be_word :: "byte list \<Rightarrow> w32" where
  "be_word bs = foldl (\<lambda>acc b. or (push_bit 8 acc) (ucast b)) 0 bs"

definition sha256_pad :: "byte list \<Rightarrow> byte list" where
  "sha256_pad msg =
     (let l = length msg;
          zeros = (119 - l mod 64) mod 64
      in msg @ [0x80] @ replicate zeros 0 @ be_bytes 8 (of_nat (8 * l) :: 64 word))"

fun chunks :: "nat \<Rightarrow> nat \<Rightarrow> 'a list \<Rightarrow> 'a list list" where
  "chunks 0 n xs = []"
| "chunks (Suc k) n xs = take n xs # chunks k n (drop n xs)"

definition schedule :: "w32 list \<Rightarrow> w32 list" where
  "schedule block =
     fold (\<lambda>t w. w @ [small_sigma1 (w ! (t - 2)) + w ! (t - 7)
                        + small_sigma0 (w ! (t - 15)) + w ! (t - 16)])
       [16..<64] block"

definition sha256_round :: "w32 \<times> w32 \<Rightarrow> w32 list \<Rightarrow> w32 list" where
  "sha256_round kw s =
     (case s of [a, b, c, d, e, f, g, h] \<Rightarrow>
        (let t1 = h + big_sigma1 e + ch e f g + fst kw + snd kw;
             t2 = big_sigma0 a + maj a b c
         in [t1 + t2, a, b, c, d + t1, e, f, g])
      | _ \<Rightarrow> s)"

definition sha256_block :: "byte list \<Rightarrow> w32 list \<Rightarrow> w32 list" where
  "sha256_block bytes hs =
     (let w = schedule (map be_word (chunks 16 4 bytes))
      in map2 (+) hs (fold sha256_round (zip sha256_k w) hs))"

definition sha256 :: "byte list \<Rightarrow> byte list" where
  "sha256 msg =
     (let p = sha256_pad msg
      in concat (map (be_bytes 4)
           (fold sha256_block (chunks (length p div 64) 64 p) sha256_h0)))"

definition hex_digit :: "byte \<Rightarrow> char" where
  "hex_digit d = ''0123456789abcdef'' ! unat d"

definition hexdigest :: "byte list \<Rightarrow> string" where
  "hexdigest bs = concat (map (\<lambda>b. [hex_digit (drop_bit 4 b), hex_digit (and b 0x0f)]) bs)"

text \<open>\<^verbatim>\<open>data.encode()\<close>: on ASCII text, UTF-8 is one byte for each character.\<close>

definition encode :: "string \<Rightarrow> byte list" where
  "encode s = map of_char s"

text \<open>
  \<^verbatim>\<open>
  def anonymize_data(data):
      return hashlib.sha256(data.encode()).hexdigest()
  \<close>
\<close>

definition anonymize_data :: "string \<Rightarrow> string" where
  "anonymize_data data = hexdigest (sha256 (encode data))"

subsection \<open>History store\<close>

text \<open>
  The backing file \<^verbatim>\<open>mood_history.json\<close>, told apart by what the script can observe of it:
  whether the path exists, whether the size is zero, and what opening it and
  \<^verbatim>\<open>json.load\<close> do with the content.
\<close>

datatype backing_file =
    Missing       \<comment> \<open>no file at the path\<close>
  | Empty         \<comment> \<open>a file of size zero\<close>
  | Json pyval    \<comment> \<open>text that \<^verbatim>\<open>json.load\<close> decodes, to this value\<close>
  | IntTooLong    \<comment> \<open>text with an integer of more digits than \<^verbatim>\<open>int\<close> converts\<close>
  | NestedTooDeep \<comment> \<open>text with brackets nested deeper than the recursion limit\<close>
  | Garbled       \<comment> \<open>text, not empty, that \<^verbatim>\<open>json.load\<close> rejects as not JSON\<close>
  | Undecodable   \<comment> \<open>bytes that are not text in the encoding of \<^verbatim>\<open>open\<close>\<close>
  | NoAccess      \<comment> \<open>the path exists and cannot be opened for reading\<close>

text \<open>\<^verbatim>\<open>os.path.exists(filename)\<close> and \<^verbatim>\<open>os.stat(filename).st_size == 0\<close>\<close>

definition path_exists :: "backing_file \<Rightarrow> bool" where
  "path_exists f = (f \<noteq> Missing)"

definition st_size_is_zero :: "backing_file \<Rightarrow> bool" where
  "st_size_is_zero f = (f = Empty)"

text \<open>
  \<^verbatim>\<open>with open(filename, "r") as file: json.load(file)\<close>. A missing or unopenable file is an
  \<^verbatim>\<open>OSError\<close> of \<^verbatim>\<open>open\<close>; bytes that do not decode are a \<^verbatim>\<open>UnicodeDecodeError\<close> of
  the read; empty text and text that the parser rejects as not JSON are a
  \<^verbatim>\<open>JSONDecodeError\<close>. The parser can also fail before it has accepted or rejected the
  text: an integer of more than 4300 digits (the default limit of the conversion from text) is a
  \<^verbatim>\<open>ValueError\<close>, nesting beyond the recursion limit is a \<^verbatim>\<open>RecursionError\<close>; neither
  is a \<^verbatim>\<open>JSONDecodeError\<close>.
\<close>

fun open_and_json_load :: "backing_file \<Rightarrow> py_exn + pyval" where
  "open_and_json_load Missing = Inl OSError"
| "open_and_json_load NoAccess = Inl OSError"
| "open_and_json_load Undecodable = Inl UnicodeDecodeError"
| "open_and_json_load Empty = Inl JSONDecodeError"
| "open_and_json_load Garbled = Inl JSONDecodeError"
| "open_and_json_load IntTooLong = Inl ValueError"
| "open_and_json_load NestedTooDeep = Inl RecursionError"
| "open_and_json_load (Json v) = Inr v"

text \<open>
  \<^verbatim>\<open>
  def load_mood_history(filename="mood_history.json"):
      if not os.path.exists(filename) or os.stat(filename).st_size == 0:
          return []
      try:
          with open(filename, "r") as file:
              return json.load(file)
      except json.JSONDecodeError:
          print("Warning: mood_history.json is corrupted or empty. Resetting...")
          return []
  \<close>
  Only \<^verbatim>\<open>JSONDecodeError\<close> is caught; any other exception leaves the function.
\<close>

definition load_mood_history :: "backing_file \<Rightarrow> py_exn + (event list \<times> pyval)" where
  "load_mood_history f =
     (if \<not> path_exists f \<or> st_size_is_zero f then Inr ([], PList [])
      else (case open_and_json_load f of
              Inr v \<Rightarrow> Inr ([], v)
            | Inl JSONDecodeError \<Rightarrow> Inr ([CorruptWarning], PList [])
            | Inl e \<Rightarrow> Inl e))"

text \<open>
  What can go wrong with the file while \<^verbatim>\<open>save_mood_history\<close> writes it: \<^verbatim>\<open>open\<close> fails
  and the file stays as it was, or \<^verbatim>\<open>open\<close> has emptied the file and the write fails, before
  or after part of the text has reached the file. Both are an \<^verbatim>\<open>OSError\<close>.
\<close>

datatype io_fault = NoFault | OpenFails | WriteFailsAtStart | WriteFailsMidway

text \<open>
  The element of the comprehension in \<^verbatim>\<open>save_mood_history\<close>:
  \<^verbatim>\<open>{"employee_id": entry["employee_id"], "anonymized_mood": entry["anonymized_mood"]}\<close>
\<close>

definition project_entry :: "pyval \<Rightarrow> py_exn + pyval" where
  "project_entry entry =
     (case py_getitem entry ''employee_id'' of
        Inl e \<Rightarrow> Inl e
      | Inr eid \<Rightarrow>
          (case py_getitem entry ''anonymized_mood'' of
             Inl e \<Rightarrow> Inl e
           | Inr am \<Rightarrow> Inr (PDict [(''employee_id'', eid), (''anonymized_mood'', am)])))"

text \<open>
  \<^verbatim>\<open>with open(filename, "w") as file: json.dump(filtered_history, file, indent=4)\<close>.
  The result is the file afterwards and the exception, if one was raised. A proper prefix of the
  text of a JSON array is not a JSON document.
\<close>

fun open_and_json_dump :: "io_fault \<Rightarrow> pyval \<Rightarrow> backing_file \<Rightarrow> backing_file \<times> py_exn option" where
  "open_and_json_dump NoFault v f = (Json v, None)"
| "open_and_json_dump OpenFails v f = (f, Some OSError)"
| "open_and_json_dump WriteFailsAtStart v f = (Empty, Some OSError)"
| "open_and_json_dump WriteFailsMidway v f = (Garbled, Some OSError)"

text \<open>
  \<^verbatim>\<open>
  def save_mood_history(mood_history, filename="mood_history.json"):
      try:
          filtered_history = [
              {"employee_id": entry["employee_id"], "anonymized_mood": entry["anonymized_mood"]}
              for entry in mood_history
          ]
          with open(filename, "w") as file:
              json.dump(filtered_history, file, indent=4)
          print("Mood history successfully updated with anonymized data!")
      except Exception as e:
          print(f"Error saving mood history: {e}")
  \<close>
  \<open>save_try\<close> is the body of the \<^verbatim>\<open>try\<close>: the file afterwards, and either the exception
  that left the body or what the body printed. \<^verbatim>\<open>except Exception\<close> catches every exception
  of the model.
\<close>

definition save_try :: "io_fault \<Rightarrow> pyval list \<Rightarrow> backing_file \<Rightarrow> backing_file \<times> (py_exn + event list)" where
  "save_try fault mood_history f =
     (case comprehension project_entry mood_history of
        Inl e \<Rightarrow> (f, Inl e)
      | Inr filtered_history \<Rightarrow>
          (case open_and_json_dump fault (PList filtered_history) f of
             (f', Some e) \<Rightarrow> (f', Inl e)
           | (f', None) \<Rightarrow> (f', Inr [SaveOk])))"

definition save_mood_history :: "io_fault \<Rightarrow> pyval list \<Rightarrow> backing_file \<Rightarrow> event list \<times> backing_file" where
  "save_mood_history fault mood_history f =
     (case save_try fault mood_history f of
        (f', Inl e) \<Rightarrow> ([SaveError e], f')
      | (f', Inr printed) \<Rightarrow> (printed, f'))"

subsection \<open>Reporter\<close>

text \<open>
  \<^verbatim>\<open>collections.Counter\<close>: a key must be hashable (a list or a dictionary is not, a
  \<^verbatim>\<open>TypeError\<close>); two keys are one when they are equal, and \<^verbatim>\<open>True == 1\<close>,
  \<^verbatim>\<open>False == 0\<close>. The counter keeps the keys in the order they first came.
\<close>

fun hashable :: "pyval \<Rightarrow> bool" where
  "hashable (PList xs) = False"
| "hashable (PDict d) = False"
| "hashable _ = True"

fun py_key_eq :: "pyval \<Rightarrow> pyval \<Rightarrow> bool" where
  "py_key_eq (PBool b) (PInt i) = (i = (if b then 1 else 0))"
| "py_key_eq (PInt i) (PBool b) = (i = (if b then 1 else 0))"
| "py_key_eq x y = (x = y)"

fun counter_add :: "pyval \<Rightarrow> (pyval \<times> nat) list \<Rightarrow> (pyval \<times> nat) list" where
  "counter_add k [] = [(k, 1)]"
| "counter_add k ((k', n) # rest) =
     (if py_key_eq k k' then (k', n + 1) # rest else (k', n) # counter_add k rest)"

fun counter :: "pyval list \<Rightarrow> (pyval \<times> nat) list \<Rightarrow> py_exn + (pyval \<times> nat) list" where
  "counter [] acc = Inr acc"
| "counter (x # xs) acc = (if hashable x then counter xs (counter_add x acc) else Inl TypeError)"

text \<open>
  \<^verbatim>\<open>
  mood_counts = Counter(entry["mood"] for entry in mood_history
                        if isinstance(entry, dict) and "mood" in entry)
  \<close>
\<close>

definition mood_counts :: "pyval list \<Rightarrow> py_exn + (pyval \<times> nat) list" where
  "mood_counts mood_history =
     (case comprehension (\<lambda>entry. py_getitem entry ''mood'')
             (filter (\<lambda>entry. isinstance_dict entry \<and> py_in ''mood'' entry) mood_history) of
        Inl e \<Rightarrow> Inl e
      | Inr moods \<Rightarrow> counter moods [])"

definition colors :: "(string \<times> string) list" where
  "colors =
     [(''Happy'', ''green''), (''Sad'', ''black''), (''Fear'', ''red''),
      (''Surprise'', ''orange''), (''Angry'', ''blue''), (''Neutral'', ''gold'')]"

text \<open>\<^verbatim>\<open>colors.get(mood, "gray")\<close>: only a string is equal to a key of the table.\<close>

fun colors_get :: "pyval \<Rightarrow> string \<Rightarrow> string" where
  "colors_get (PStr mood) dflt = (case map_of colors mood of Some c \<Rightarrow> c | None \<Rightarrow> dflt)"
| "colors_get _ dflt = dflt"

text \<open>
  \<^verbatim>\<open>
  def plot_team_mood(mood_history):
      if not mood_history:
          print("No mood history available to plot."); return
      mood_counts = Counter(...)
      if not mood_counts:
          print("No valid mood data available for plotting."); return
      colors = {...}
      moods, counts = zip(*mood_counts.items())
      bar_colors = [colors.get(mood, "gray") for mood in moods]
      plt.bar(moods, counts, color=bar_colors)
      ...
  \<close>
  The chart is the event \<open>BarChart\<close> with the bars handed to \<^verbatim>\<open>plt.bar\<close>.
\<close>

definition plot_team_mood :: "pyval list \<Rightarrow> py_exn + event list" where
  "plot_team_mood mood_history =
     (if mood_history = [] then Inr [NoHistoryToPlot]
      else (case mood_counts mood_history of
              Inl e \<Rightarrow> Inl e
            | Inr cs \<Rightarrow>
                if cs = [] then Inr [NoValidMoodData]
                else Inr [BarChart (map (\<lambda>(mood, n). (mood, n, colors_get mood ''gray'')) cs)]))"

subsection \<open>Main loop\<close>

text \<open>
  \<^verbatim>\<open>
  def detect_facial_emotion(frame):
      result = DeepFace.analyze(frame, actions=["emotion"], enforce_detection=False)
      if result:
          return result[0]['dominant_emotion'].capitalize()
      return "Neutral"
  \<close>
  The classifier is outside the model: the argument is what it reports, the dominant emotion of
  each face.
\<close>

fun detect_facial_emotion :: "string list \<Rightarrow> string" where
  "detect_facial_emotion [] = ''Neutral''"
| "detect_facial_emotion (dominant_emotion # _) = py_capitalize dominant_emotion"

text \<open>
  The variables the loop of \<^verbatim>\<open>main\<close> works on: the list \<^verbatim>\<open>mood_history\<close>, the backing
  file, and what has been put out so far. \<^verbatim>\<open>main\<close> binds \<^verbatim>\<open>mood_history\<close> to what
  \<^verbatim>\<open>load_mood_history\<close> returns; the loop is modelled from a state where that value is a list
  (on any other value the first \<^verbatim>\<open>mood_history.append\<close> raises \<^verbatim>\<open>AttributeError\<close>, before
  any record is stored).
\<close>

record world =
  mood_history :: "pyval list"
  disk :: backing_file
  console :: "event list"

text \<open>
  What one pass of the loop takes from outside: whether \<^verbatim>\<open>cap.read()\<close> delivered a frame,
  what the classifier reports on it, what happens to the file during the save, the random draw
  of the recommender, and whether \<^verbatim>\<open>q\<close> was pressed.
\<close>

record tick =
  ret :: bool
  faces :: "string list"
  fault :: io_fault
  draw :: nat
  key_q :: bool

text \<open>
  \<^verbatim>\<open>
  detected_mood = detect_facial_emotion(frame)
  mood_entry = {"employee_id": employee_id, "mood": detected_mood,
                "anonymized_mood": anonymize_data(detected_mood)}
  mood_history.append(mood_entry)
  save_mood_history(mood_history)
  monitor_stress(mood_history)
  print(f"Employee: {employee_id} | Detected Mood: {detected_mood}")
  print(f"Recommended Task: {recommend_task(detected_mood)}")
  \<close>
\<close>

definition mood_entry :: "string \<Rightarrow> string \<Rightarrow> pyval" where
  "mood_entry employee_id detected_mood =
     PDict [(''employee_id'', PStr employee_id),
            (''mood'', PStr detected_mood),
            (''anonymized_mood'', PStr (anonymize_data detected_mood))]"

definition loop_body :: "string \<Rightarrow> tick \<Rightarrow> world \<Rightarrow> py_exn + world" where
  "loop_body employee_id t w =
     (let detected_mood = detect_facial_emotion (faces t);
          history = mood_history w @ [mood_entry employee_id detected_mood];
          (saved, f) = save_mood_history (fault t) history (disk w)
      in case monitor_stress history of
           Inl e \<Rightarrow> Inl e
         | Inr (alerts, _) \<Rightarrow>
             (case recommend_task (draw t) detected_mood of
                Inl e \<Rightarrow> Inl e
              | Inr task \<Rightarrow>
                  Inr \<lparr>mood_history = history, disk = f,
                       console = console w @ saved @ alerts
                                 @ [EmployeeLine employee_id detected_mood, TaskLine task]\<rparr>))"

text \<open>
  \<^verbatim>\<open>
  while True:
      ret, frame = cap.read()
      if not ret: break
      ... (the body above) ...
      if cv2.waitKey(1) & 0xFF == ord('q'): break
  \<close>
  The list holds the passes that are observed; the state after them is the result.
\<close>

fun main_loop :: "string \<Rightarrow> tick list \<Rightarrow> world \<Rightarrow> py_exn + world" where
  "main_loop employee_id [] w = Inr w"
| "main_loop employee_id (t # ts) w =
     (if \<not> ret t then Inr w
      else (case loop_body employee_id t w of
              Inl e \<Rightarrow> Inl e
            | Inr w' \<Rightarrow> if key_q t then Inr w' else main_loop employee_id ts w'))"

text \<open>\<^verbatim>\<open>plot_team_mood(mood_history)\<close>, the last statement of \<^verbatim>\<open>main\<close>.\<close>

definition main_report :: "world \<Rightarrow> py_exn + world" where
  "main_report w =
     (case plot_team_mood (mood_history w) of
        Inl e \<Rightarrow> Inl e
      | Inr shown \<Rightarrow> Inr (w\<lparr>console := console w @ shown\<rparr>))"

subsection \<open>The specification's words\<close>

text \<open>
  The mood vocabulary of the specification; the source has no such constant. The six labels
  are the keys of the colour table of \<^verbatim>\<open>plot_team_mood\<close>.
\<close>

definition mood_vocabulary :: "string list" where
  "mood_vocabulary = [''Happy'', ''Sad'', ''Fear'', ''Angry'', ''Surprise'', ''Neutral'']"

text \<open>
  The last \<open>n\<close> records of a log, all of them when there are fewer; a field of a record, when
  the record is a dictionary that has it; a record whose mood is \<^verbatim>\<open>Sad\<close>. These follow the
  specification and are what the model of the source is compared with.
\<close>

definition last_records :: "nat \<Rightarrow> 'a list \<Rightarrow> 'a list" where
  "last_records n xs = drop (length xs - n) xs"

fun field :: "string \<Rightarrow> pyval \<Rightarrow> pyval option" where
  "field k (PDict d) = map_of d k"
| "field k _ = None"

definition sad_record :: "pyval \<Rightarrow> bool" where
  "sad_record entry = (field ''mood'' entry = Some (PStr ''Sad''))"

text \<open>
  A well-formed record has the string fields \<^verbatim>\<open>employee_id\<close> and \<^verbatim>\<open>anonymized_mood\<close>; a
  well-formed stored log is a JSON array of such records. The privacy-safe projection of a
  record keeps these two fields, in this order, and nothing else.
\<close>

definition well_formed_record :: "pyval \<Rightarrow> bool" where
  "well_formed_record entry =
     (case (field ''employee_id'' entry, field ''anonymized_mood'' entry) of
        (Some (PStr eid), Some (PStr am)) \<Rightarrow> True
      | _ \<Rightarrow> False)"

fun well_formed_log :: "pyval \<Rightarrow> bool" where
  "well_formed_log (PList rs) = list_all well_formed_record rs"
| "well_formed_log _ = False"

definition privacy_projection :: "pyval \<Rightarrow> pyval" where
  "privacy_projection entry =
     PDict (List.map_filter (\<lambda>k. map_option (Pair k) (field k entry))
              [''employee_id'', ''anonymized_mood''])"

text \<open>Two records agree on the fields that may reach the file.\<close>

definition safe_fields_agree :: "pyval \<Rightarrow> pyval \<Rightarrow> bool" where
  "safe_fields_agree a b =
     (field ''employee_id'' a = field ''employee_id'' b
      \<and> field ''anonymized_mood'' a = field ''anonymized_mood'' b)"

text \<open>The names of the fields of a record, in order.\<close>

fun dict_keys :: "pyval \<Rightarrow> string list option" where
  "dict_keys (PDict d) = Some (map fst d)"
| "dict_keys _ = None"

definition two_field_record :: "pyval \<Rightarrow> bool" where
  "two_field_record r = (dict_keys r = Some [''employee_id'', ''anonymized_mood''])"

text \<open>
  The states of the backing file when nothing but \<^verbatim>\<open>save_mood_history\<close> has written it: no
  file, what a failed write leaves behind, or an array of records with exactly the two fields.
\<close>

fun written_by_save :: "backing_file \<Rightarrow> bool" where
  "written_by_save Missing = True"
| "written_by_save Empty = True"
| "written_by_save Garbled = True"
| "written_by_save (Json (PList rs)) = list_all two_field_record rs"
| "written_by_save (Json _) = False"
| "written_by_save IntTooLong = False"
| "written_by_save NestedTooDeep = False"
| "written_by_save Undecodable = False"
| "written_by_save NoAccess = False"

section \<open>Properties\<close>

subsection \<open>Slices and guarded comprehensions\<close>

lemma py_slice_from_last: "py_slice_from (- 5) xs = drop (length xs - 5) xs"
  by (auto simp: py_slice_from_def Let_def max_def intro!: arg_cong2[where f=drop])

text \<open>
  Behind the guard \<^verbatim>\<open>isinstance(entry, dict) and k in entry\<close> the subscript
  \<^verbatim>\<open>entry[k]\<close> never raises.
\<close>

lemma guarded_getitem:
  "comprehension (\<lambda>entry. py_getitem entry k)
     (filter (\<lambda>entry. isinstance_dict entry \<and> py_in k entry) xs)
   = Inr (List.map_filter (field k) xs)"
proof (induction xs)
  case Nil
  show ?case by (simp add: List.map_filter_simps)
next
  case (Cons x xs)
  then show ?case by (cases x) (auto simp: List.map_filter_simps)
qed

lemma stressed_count_fields:
  "stressed_count (List.map_filter (field ''mood'') xs) = length (filter sad_record xs)"
  by (induction xs)
     (auto simp: stressed_count_def sad_record_def List.map_filter_simps split: option.splits)

lemma monitor_stress_eq:
  "monitor_stress h =
     Inr (if 3 \<le> length (filter sad_record (last_records 5 h)) then [StressAlert] else [], PNone)"
  by (simp add: monitor_stress_def recent_moods_def guarded_getitem stressed_count_fields
        py_slice_from_last last_records_def stress_threshold_def)

subsection \<open>Stress monitor\<close>

text \<open>
  C1. For every history log the stress check raises the alert if and only if, among the last 5
  records of the whole log, at least 3 are dictionaries with a \<^verbatim>\<open>mood\<close> field equal to
  \<^verbatim>\<open>Sad\<close>. A log of fewer than 5 records is taken as it is, and the empty log raises no
  alert.
\<close>

theorem monitor_stress_alert_iff:
  "(\<exists>printed. monitor_stress h = Inr (printed, PNone) \<and>
      (StressAlert \<in> set printed \<longleftrightarrow> 3 \<le> length (filter sad_record (last_records 5 h))))
   \<and> (length g \<le> 5 \<longrightarrow>
        (\<exists>printed. monitor_stress g = Inr (printed, PNone) \<and>
           (StressAlert \<in> set printed \<longleftrightarrow> 3 \<le> length (filter sad_record g))))
   \<and> monitor_stress [] = Inr ([], PNone)"
proof (intro conjI impI)
  show "\<exists>printed. monitor_stress h = Inr (printed, PNone) \<and>
      (StressAlert \<in> set printed \<longleftrightarrow> 3 \<le> length (filter sad_record (last_records 5 h)))"
    by (simp add: monitor_stress_eq)
next
  assume "length g \<le> 5"
  then have "last_records 5 g = g" by (simp add: last_records_def)
  then show "\<exists>printed. monitor_stress g = Inr (printed, PNone) \<and>
           (StressAlert \<in> set printed \<longleftrightarrow> 3 \<le> length (filter sad_record g))"
    by (simp add: monitor_stress_eq)
next
  show "monitor_stress [] = Inr ([], PNone)"
    by (simp add: monitor_stress_eq last_records_def)
qed

text \<open>
  A log of six records, three of them sad, whose oldest record is sad and falls out of the
  window, and a log of four records, three of them sad and one not a dictionary.
\<close>

theorem monitor_stress_alert_iff_witness:
  "(\<exists>printed.
      monitor_stress
        [PDict [(''mood'', PStr ''Sad'')], PDict [(''mood'', PStr ''Sad'')],
         PDict [(''mood'', PStr ''Happy'')], PInt 0, PDict [(''mood'', PStr ''Sad'')],
         PDict [(''employee_id'', PStr ''E1'')]] = Inr (printed, PNone)
      \<and> StressAlert \<notin> set printed)
   \<and> length [PDict [(''mood'', PStr ''Sad'')], PInt 0, PDict [(''mood'', PStr ''Sad'')],
              PDict [(''mood'', PStr ''Sad'')]] \<le> 5
   \<and> (\<exists>printed.
        monitor_stress
          [PDict [(''mood'', PStr ''Sad'')], PInt 0, PDict [(''mood'', PStr ''Sad'')],
           PDict [(''mood'', PStr ''Sad'')]] = Inr (printed, PNone)
        \<and> StressAlert \<in> set printed)"
  using monitor_stress_alert_iff
    [of "[PDict [(''mood'', PStr ''Sad'')], PDict [(''mood'', PStr ''Sad'')],
          PDict [(''mood'', PStr ''Happy'')], PInt 0, PDict [(''mood'', PStr ''Sad'')],
          PDict [(''employee_id'', PStr ''E1'')]]"
        "[PDict [(''mood'', PStr ''Sad'')], PInt 0, PDict [(''mood'', PStr ''Sad'')],
          PDict [(''mood'', PStr ''Sad'')]]"]
  by (simp add: last_records_def sad_record_def)

text \<open>
  C5, as the specification states it: the stress check performs no output and hands an alert
  signal back to its caller. On three sad records the source prints the alert itself and
  returns \<^verbatim>\<open>None\<close>, which is false as a truth value.
\<close>

theorem monitor_stress_prints_and_returns_none:
  "monitor_stress
     [PDict [(''mood'', PStr ''Sad'')], PDict [(''mood'', PStr ''Sad'')],
      PDict [(''mood'', PStr ''Sad'')]] = Inr ([StressAlert], PNone)
   \<and> [StressAlert] \<noteq> [] \<and> \<not> py_truthy PNone"
  by (simp add: monitor_stress_eq last_records_def sad_record_def)

text \<open>
  C5, amended. For every history log the stress check never raises and what it does is a
  function of the log alone: it always returns \<^verbatim>\<open>None\<close>, and it prints the alert line itself,
  once, exactly when the count reaches the threshold, and nothing otherwise.
\<close>

theorem monitor_stress_prints_alert_itself:
  "monitor_stress h =
     Inr (if stress_threshold \<le> length (filter sad_record (last_records 5 h))
          then [StressAlert] else [],
          PNone)"
  by (simp add: monitor_stress_eq stress_threshold_def)

subsection \<open>Task recommender\<close>

lemma py_capitalize_idem: "py_capitalize (py_capitalize s) = py_capitalize s"
proof (cases s)
  case Nil
  then show ?thesis by simp
next
  case (Cons c cs)
  have u: "ascii_upper (ascii_upper c) = ascii_upper c"
    unfolding ascii_upper_def by (simp split: option.splits)
  have l: "ascii_lower (ascii_lower x) = ascii_lower x" for x
    unfolding ascii_lower_def by (simp split: option.splits)
  from Cons u l show ?thesis by simp
qed

lemma random_choice_member: "xs \<noteq> [] \<Longrightarrow> \<exists>x. random_choice r xs = Inr x \<and> x \<in> set xs"
  by (simp add: random_choice_def)

text \<open>
  C4, as the specification states it: every label of the vocabulary has candidates. The table of
  the source has no entry for \<^verbatim>\<open>Neutral\<close>, which gets the fallback value.
\<close>

theorem recommend_task_neutral_is_fallback:
  "''Neutral'' \<in> set mood_vocabulary
   \<and> map_of tasks ''Neutral'' = None
   \<and> recommend_task 0 ''Neutral'' = Inr ''No suggestion available''"
  by (simp add: mood_vocabulary_def tasks_def recommend_task_def tasks_get_def
        random_choice_def ascii_upper_def ascii_lower_def)

text \<open>
  C4, amended. For every label among \<^verbatim>\<open>Happy\<close>, \<^verbatim>\<open>Sad\<close>, \<^verbatim>\<open>Fear\<close>, \<^verbatim>\<open>Angry\<close> and
  \<^verbatim>\<open>Surprise\<close> the recommender returns a member of that label's non-empty candidate list,
  never the fallback value; every string whose capitalized form is not one of these five,
  \<^verbatim>\<open>Neutral\<close> among them, gets the fallback value.
\<close>

theorem recommend_task_five_labels:
  "(mood \<in> set [''Happy'', ''Sad'', ''Fear'', ''Angry'', ''Surprise''] \<longrightarrow>
      (\<exists>ts s. map_of tasks mood = Some ts \<and> ts \<noteq> [] \<and> recommend_task r mood = Inr s
         \<and> s \<in> set ts \<and> s \<noteq> ''No suggestion available''))
   \<and> (py_capitalize other \<notin> set [''Happy'', ''Sad'', ''Fear'', ''Angry'', ''Surprise''] \<longrightarrow>
        recommend_task r other = Inr ''No suggestion available'')"
proof (intro conjI impI)
  assume "mood \<in> set [''Happy'', ''Sad'', ''Fear'', ''Angry'', ''Surprise'']"
  then consider "mood = ''Happy''" | "mood = ''Sad''" | "mood = ''Fear''"
    | "mood = ''Angry''" | "mood = ''Surprise''"
    by auto
  then obtain ts where ts: "map_of tasks mood = Some ts" "ts \<noteq> []"
    "''No suggestion available'' \<notin> set ts" "py_capitalize mood = mood"
    by cases (simp_all add: tasks_def ascii_upper_def ascii_lower_def)
  from random_choice_member [OF ts(2)] obtain s where "random_choice r ts = Inr s" "s \<in> set ts"
    by blast
  with ts show "\<exists>ts s. map_of tasks mood = Some ts \<and> ts \<noteq> [] \<and> recommend_task r mood = Inr s
         \<and> s \<in> set ts \<and> s \<noteq> ''No suggestion available''"
    by (auto simp: recommend_task_def tasks_get_def)
next
  assume "py_capitalize other \<notin> set [''Happy'', ''Sad'', ''Fear'', ''Angry'', ''Surprise'']"
  then have "map_of tasks (py_capitalize other) = None"
    by (simp add: tasks_def)
  then show "recommend_task r other = Inr ''No suggestion available''"
    by (simp add: recommend_task_def tasks_get_def random_choice_def)
qed

theorem recommend_task_five_labels_witness:
  "''Sad'' \<in> set [''Happy'', ''Sad'', ''Fear'', ''Angry'', ''Surprise'']
   \<and> (\<exists>ts s. map_of tasks ''Sad'' = Some ts \<and> ts \<noteq> [] \<and> recommend_task 7 ''Sad'' = Inr s
         \<and> s \<in> set ts \<and> s \<noteq> ''No suggestion available'')
   \<and> py_capitalize ''neutral'' \<notin> set [''Happy'', ''Sad'', ''Fear'', ''Angry'', ''Surprise'']
   \<and> recommend_task 7 ''neutral'' = Inr ''No suggestion available''"
  using recommend_task_five_labels [of "''Sad''" 7 "''neutral''"]
  by (simp add: ascii_upper_def ascii_lower_def)

text \<open>
  C9. The recommender capitalizes its argument before the lookup: two strings with the same
  capitalized form get the same answer, and the answer for a string is the answer for its
  capitalized form. \<^verbatim>\<open>happy\<close> and \<^verbatim>\<open>Happy\<close> both get a member of the candidate list of
  \<^verbatim>\<open>Happy\<close>, whatever the draw, and \<^verbatim>\<open>unknown-mood\<close> gets the fallback value.
\<close>

theorem recommend_task_normalizes:
  "(py_capitalize a = py_capitalize b \<longrightarrow> recommend_task r a = recommend_task r b)
   \<and> recommend_task r m = recommend_task r (py_capitalize m)
   \<and> py_capitalize ''happy'' = ''Happy''
   \<and> map_of tasks ''Happy''
       = Some [''Collaborate on a new project'', ''Share positivity with the team'']
   \<and> (\<exists>s. recommend_task r1 ''happy'' = Inr s
         \<and> s \<in> set [''Collaborate on a new project'', ''Share positivity with the team''])
   \<and> (\<exists>s. recommend_task r2 ''Happy'' = Inr s
         \<and> s \<in> set [''Collaborate on a new project'', ''Share positivity with the team''])
   \<and> recommend_task r3 ''unknown-mood'' = Inr ''No suggestion available''"
proof -
  have cap: "py_capitalize ''happy'' = ''Happy''" "py_capitalize ''Happy'' = ''Happy''"
    "py_capitalize ''unknown-mood'' = ''Unknown-mood''"
    by (simp_all add: ascii_upper_def ascii_lower_def)
  have tab: "map_of tasks ''Happy''
       = Some [''Collaborate on a new project'', ''Share positivity with the team'']"
    "map_of tasks ''Unknown-mood'' = None"
    by (simp_all add: tasks_def)
  have happy: "\<exists>s. recommend_task r c = Inr s
         \<and> s \<in> set [''Collaborate on a new project'', ''Share positivity with the team'']"
    if "py_capitalize c = ''Happy''" for r c
    using that tab(1)
      random_choice_member [of "[''Collaborate on a new project'', ''Share positivity with the team'']" r]
    by (simp add: recommend_task_def tasks_get_def)
  have "recommend_task r3 ''unknown-mood''
        = random_choice r3 (tasks_get ''Unknown-mood'' [''No suggestion available''])"
    by (simp only: recommend_task_def cap)
  then have "recommend_task r3 ''unknown-mood'' = Inr ''No suggestion available''"
    by (simp add: tasks_get_def random_choice_def tab)
  moreover have "recommend_task r m = recommend_task r (py_capitalize m)"
    by (simp add: recommend_task_def py_capitalize_idem)
  moreover have "py_capitalize a = py_capitalize b \<longrightarrow> recommend_task r a = recommend_task r b"
    by (simp add: recommend_task_def)
  ultimately show ?thesis
    using cap tab happy [of "''happy''" r1] happy [of "''Happy''" r2] by simp
qed

theorem recommend_task_normalizes_witness:
  "py_capitalize ''hAPPY'' = py_capitalize ''Happy''
   \<and> recommend_task 1 ''hAPPY'' = recommend_task 1 ''Happy''
   \<and> recommend_task 1 ''Happy'' = Inr ''Share positivity with the team''"
  using recommend_task_normalizes [of "''hAPPY''" "''Happy''" 1]
  by (simp add: ascii_upper_def ascii_lower_def recommend_task_def tasks_get_def tasks_def
        random_choice_def)

subsection \<open>Anonymizer\<close>

text \<open>
  The digest of the label \<^verbatim>\<open>Sad\<close>, computed by the model: the 64 hexadecimal digits that
  \<^verbatim>\<open>hashlib.sha256(b"Sad").hexdigest()\<close> gives.
\<close>

lemma anonymize_data_Sad:
  "anonymize_data ''Sad'' = ''3ba6f1aeede102d36c0511309781ae5df4ee0f2cd43621942988fe186fb62bad''"
  by code_simp

subsection \<open>History store: what is written\<close>

lemma project_entry_cases:
  "project_entry entry =
     (case field ''employee_id'' entry of
        None \<Rightarrow> Inl (if isinstance_dict entry then KeyError ''employee_id'' else TypeError)
      | Some eid \<Rightarrow>
          (case field ''anonymized_mood'' entry of
             None \<Rightarrow> Inl (KeyError ''anonymized_mood'')
           | Some am \<Rightarrow> Inr (PDict [(''employee_id'', eid), (''anonymized_mood'', am)])))"
  by (cases entry) (auto simp: project_entry_def split: option.splits)

lemma project_entry_Inr:
  "project_entry entry = Inr r \<Longrightarrow> r = privacy_projection entry \<and> two_field_record r"
  by (auto simp: project_entry_cases privacy_projection_def two_field_record_def
        List.map_filter_simps split: option.splits)

lemma project_well_formed:
  "well_formed_record entry \<Longrightarrow> project_entry entry = Inr (privacy_projection entry)"
  by (auto simp: project_entry_cases privacy_projection_def well_formed_record_def
        List.map_filter_simps split: option.splits pyval.splits)

lemma comprehension_Inr_map:
  "list_all (\<lambda>x. f x = Inr (g x)) xs \<Longrightarrow> comprehension f xs = Inr (map g xs)"
  by (induction xs) auto

lemma comprehension_Inr_all:
  "comprehension f xs = Inr ys \<Longrightarrow> list_all2 (\<lambda>x y. f x = Inr y) xs ys"
  by (induction xs arbitrary: ys) (auto split: sum.splits)

lemma comprehension_cong_Inr:
  "list_all2 (\<lambda>a b. \<forall>r. f a = Inr r \<longleftrightarrow> f b = Inr r) xs ys \<Longrightarrow>
   comprehension f xs = Inr rs \<longleftrightarrow> comprehension f ys = Inr rs"
proof (induction xs ys arbitrary: rs rule: list_all2_induct)
  case Nil
  show ?case by simp
next
  case (Cons a xs b ys)
  show ?case
  proof (cases "f a")
    case (Inl e)
    with Cons.hyps(1) have "\<exists>e'. f b = Inl e'" by (cases "f b") auto
    with Inl show ?thesis by auto
  next
    case (Inr r)
    with Cons.hyps(1) have fb: "f b = Inr r" by blast
    show ?thesis
    proof (cases "comprehension f xs")
      case (Inl e)
      with Cons.IH have "\<exists>e'. comprehension f ys = Inl e'" by (cases "comprehension f ys") auto
      with Inl Inr fb show ?thesis by auto
    next
      case r2: (Inr rs')
      with Cons.IH have "comprehension f ys = Inr rs'" by blast
      with r2 Inr fb show ?thesis by simp
    qed
  qed
qed

lemma safe_fields_agree_project:
  "safe_fields_agree a b \<Longrightarrow> project_entry a = Inr r \<longleftrightarrow> project_entry b = Inr r"
  by (auto simp: safe_fields_agree_def project_entry_cases split: option.splits)

lemma save_file_by_projection:
  "snd (save_mood_history flt log f) =
     (case comprehension project_entry log of
        Inl e \<Rightarrow> f
      | Inr rs \<Rightarrow> fst (open_and_json_dump flt (PList rs) f))"
  by (cases flt) (auto simp: save_mood_history_def save_try_def split: sum.splits)

lemma comprehension_project_agree:
  assumes "list_all2 safe_fields_agree log1 log2"
  shows "comprehension project_entry log1 = Inr rs \<longleftrightarrow> comprehension project_entry log2 = Inr rs"
proof -
  from assms have "list_all2 (\<lambda>a b. \<forall>r. project_entry a = Inr r \<longleftrightarrow> project_entry b = Inr r) log1 log2"
    by (rule list_all2_mono) (simp add: safe_fields_agree_project)
  then show ?thesis by (rule comprehension_cong_Inr)
qed

lemma comprehension_project_two_fields:
  "comprehension project_entry log = Inr rs \<Longrightarrow>
   rs = map privacy_projection log \<and> list_all two_field_record rs"
proof (induction log arbitrary: rs)
  case Nil
  then show ?case by simp
next
  case (Cons a log)
  then show ?case by (auto split: sum.splits dest: project_entry_Inr)
qed

lemma save_ok_projection:
  assumes "fst (save_mood_history flt log f) = [SaveOk]"
  shows "flt = NoFault
    \<and> comprehension project_entry log = Inr (map privacy_projection log)
    \<and> list_all two_field_record (map privacy_projection log)"
proof -
  from assms obtain rs where rs: "comprehension project_entry log = Inr rs" and nf: "flt = NoFault"
    by (cases flt; cases "comprehension project_entry log")
       (auto simp: save_mood_history_def save_try_def)
  from comprehension_project_two_fields [OF rs] rs nf show ?thesis by blast
qed

text \<open>
  C7. Two logs whose records agree, one by one, on \<^verbatim>\<open>employee_id\<close> and
  \<^verbatim>\<open>anonymized_mood\<close> leave the same file behind, whatever their other fields are and
  whatever happens to the write. When the save succeeds the file holds, for each record, exactly
  the two fields \<^verbatim>\<open>employee_id\<close> and \<^verbatim>\<open>anonymized_mood\<close>, and no \<^verbatim>\<open>mood\<close> field.
\<close>

theorem save_writes_safe_fields_only:
  "(list_all2 safe_fields_agree log1 log2 \<longrightarrow>
      snd (save_mood_history flt log1 f) = snd (save_mood_history flt log2 f))
   \<and> (fst (save_mood_history flt log f) = [SaveOk] \<longrightarrow>
        snd (save_mood_history flt log f) = Json (PList (map privacy_projection log))
        \<and> list_all two_field_record (map privacy_projection log)
        \<and> list_all (\<lambda>r. \<not> py_in ''mood'' r) (map privacy_projection log))"
proof -
  have same: "snd (save_mood_history flt log1 f) = snd (save_mood_history flt log2 f)"
    if agree: "list_all2 safe_fields_agree log1 log2"
  proof (cases "comprehension project_entry log1")
    case (Inl e)
    with comprehension_project_agree [OF agree]
    have "\<exists>e'. comprehension project_entry log2 = Inl e'"
      by (cases "comprehension project_entry log2") auto
    with Inl show ?thesis by (auto simp: save_file_by_projection)
  next
    case (Inr rs)
    with comprehension_project_agree [OF agree]
    have "comprehension project_entry log2 = Inr rs"
      by blast
    with Inr show ?thesis by (simp add: save_file_by_projection)
  qed
  have written: "snd (save_mood_history flt log f) = Json (PList (map privacy_projection log))
        \<and> list_all two_field_record (map privacy_projection log)
        \<and> list_all (\<lambda>r. \<not> py_in ''mood'' r) (map privacy_projection log)"
    if ok: "fst (save_mood_history flt log f) = [SaveOk]"
  proof -
    from save_ok_projection [OF ok]
    have nf: "flt = NoFault"
      and rs: "comprehension project_entry log = Inr (map privacy_projection log)"
      and two: "list_all two_field_record (map privacy_projection log)"
      by blast+
    have nomood: "\<not> py_in ''mood'' r" if "two_field_record r" for r
      using that by (cases r) (auto simp: two_field_record_def map_of_eq_None_iff)
    from two have "list_all (\<lambda>r. \<not> py_in ''mood'' r) (map privacy_projection log)"
      by (auto simp: list_all_iff nomood)
    with rs nf two show ?thesis
      by (simp add: save_file_by_projection)
  qed
  from same written show ?thesis by blast
qed

theorem save_writes_safe_fields_only_witness:
  "list_all2 safe_fields_agree
     [PDict [(''employee_id'', PStr ''E1''), (''mood'', PStr ''Sad''),
             (''anonymized_mood'', PStr ''abc'')]]
     [PDict [(''note'', PInt 1), (''anonymized_mood'', PStr ''abc''),
             (''mood'', PStr ''Happy''), (''employee_id'', PStr ''E1'')]]
   \<and> snd (save_mood_history NoFault
            [PDict [(''employee_id'', PStr ''E1''), (''mood'', PStr ''Sad''),
                    (''anonymized_mood'', PStr ''abc'')]] Missing)
     = snd (save_mood_history NoFault
            [PDict [(''note'', PInt 1), (''anonymized_mood'', PStr ''abc''),
                    (''mood'', PStr ''Happy''), (''employee_id'', PStr ''E1'')]] Missing)
   \<and> fst (save_mood_history NoFault
            [PDict [(''employee_id'', PStr ''E1''), (''mood'', PStr ''Sad''),
                    (''anonymized_mood'', PStr ''abc'')]] Missing) = [SaveOk]
   \<and> snd (save_mood_history NoFault
            [PDict [(''employee_id'', PStr ''E1''), (''mood'', PStr ''Sad''),
                    (''anonymized_mood'', PStr ''abc'')]] Missing)
     = Json (PList [PDict [(''employee_id'', PStr ''E1''), (''anonymized_mood'', PStr ''abc'')]])"
  using save_writes_safe_fields_only
    [of "[PDict [(''employee_id'', PStr ''E1''), (''mood'', PStr ''Sad''),
                 (''anonymized_mood'', PStr ''abc'')]]"
        "[PDict [(''note'', PInt 1), (''anonymized_mood'', PStr ''abc''),
                 (''mood'', PStr ''Happy''), (''employee_id'', PStr ''E1'')]]"
        NoFault Missing
        "[PDict [(''employee_id'', PStr ''E1''), (''mood'', PStr ''Sad''),
                 (''anonymized_mood'', PStr ''abc'')]]"]
  by (simp add: safe_fields_agree_def save_mood_history_def save_try_def project_entry_def
        privacy_projection_def List.map_filter_simps)

subsection \<open>History store: save, then load\<close>

lemma save_well_formed:
  assumes "list_all well_formed_record log"
  shows "save_mood_history NoFault log f = ([SaveOk], Json (PList (map privacy_projection log)))"
proof -
  from assms have "list_all (\<lambda>x. project_entry x = Inr (privacy_projection x)) log"
    by (induction log) (auto simp: project_well_formed)
  then have "comprehension project_entry log = Inr (map privacy_projection log)"
    by (rule comprehension_Inr_map)
  then show ?thesis by (simp add: save_mood_history_def save_try_def)
qed

lemma load_Json: "load_mood_history (Json v) = Inr ([], v)"
  by (simp add: load_mood_history_def path_exists_def st_size_is_zero_def)

lemma projection_well_formed:
  "well_formed_record r \<Longrightarrow> well_formed_record (privacy_projection r) \<and> two_field_record (privacy_projection r)"
  by (cases r)
     (auto simp: well_formed_record_def privacy_projection_def two_field_record_def
        List.map_filter_simps split: option.splits pyval.splits)

text \<open>
  C2. For every log of well-formed records (none, one or many), saving it and then loading the
  file gives exactly the privacy-safe projections of its records, in the order of the log. The
  write is one that goes through.
\<close>

theorem save_then_load_round_trip:
  "list_all well_formed_record log \<longrightarrow>
     fst (save_mood_history NoFault log f) = [SaveOk]
     \<and> load_mood_history (snd (save_mood_history NoFault log f))
         = Inr ([], PList (map privacy_projection log))
     \<and> list_all two_field_record (map privacy_projection log)
     \<and> well_formed_log (PList (map privacy_projection log))"
proof
  assume wf: "list_all well_formed_record log"
  then have "list_all two_field_record (map privacy_projection log)"
    and "list_all well_formed_record (map privacy_projection log)"
    by (induction log) (auto simp: projection_well_formed)
  with save_well_formed [OF wf, of f]
  show "fst (save_mood_history NoFault log f) = [SaveOk]
     \<and> load_mood_history (snd (save_mood_history NoFault log f))
         = Inr ([], PList (map privacy_projection log))
     \<and> list_all two_field_record (map privacy_projection log)
     \<and> well_formed_log (PList (map privacy_projection log))"
    by (simp add: load_Json)
qed

theorem save_then_load_round_trip_witness:
  "list_all well_formed_record
     [PDict [(''employee_id'', PStr ''E1''), (''mood'', PStr ''Sad''),
             (''anonymized_mood'', PStr ''abc'')],
      PDict [(''employee_id'', PStr ''E2''), (''anonymized_mood'', PStr ''def'')]]
   \<and> load_mood_history
        (snd (save_mood_history NoFault
           [PDict [(''employee_id'', PStr ''E1''), (''mood'', PStr ''Sad''),
                   (''anonymized_mood'', PStr ''abc'')],
            PDict [(''employee_id'', PStr ''E2''), (''anonymized_mood'', PStr ''def'')]]
           Garbled))
     = Inr ([], PList
         [PDict [(''employee_id'', PStr ''E1''), (''anonymized_mood'', PStr ''abc'')],
          PDict [(''employee_id'', PStr ''E2''), (''anonymized_mood'', PStr ''def'')]])"
  using save_then_load_round_trip
    [of "[PDict [(''employee_id'', PStr ''E1''), (''mood'', PStr ''Sad''),
                 (''anonymized_mood'', PStr ''abc'')],
          PDict [(''employee_id'', PStr ''E2''), (''anonymized_mood'', PStr ''def'')]]"
        Garbled]
  by (simp add: well_formed_record_def privacy_projection_def List.map_filter_simps)

text \<open>
  C3, as the specification states it: content that is not an array of objects with the two
  string fields gives an empty log and a diagnostic. The file \<^verbatim>\<open>[1]\<close> is a JSON document and
  not such an array; the source returns the decoded list as it is and prints nothing.
\<close>

theorem load_returns_valid_json_unchecked:
  "\<not> well_formed_log (PList [PInt 1])
   \<and> load_mood_history (Json (PList [PInt 1])) = Inr ([], PList [PInt 1])
   \<and> PList [PInt 1] \<noteq> PList []"
  by (simp add: load_Json well_formed_record_def)

text \<open>
  C3, amended. \<^verbatim>\<open>load_mood_history\<close> returns the empty log for a path that does not exist
  and for a file of size zero, and the empty log with a printed warning for a file whose text
  \<^verbatim>\<open>json.load\<close> rejects as not JSON (a \<^verbatim>\<open>JSONDecodeError\<close>). Text that
  \<^verbatim>\<open>json.load\<close> decodes is returned as decoded, whatever the shape of the value, with no
  warning. Nothing is said of the other files: bytes that are not text, a file that cannot be
  opened, text on which \<^verbatim>\<open>json.load\<close> raises another exception.
\<close>

theorem load_mood_history_cases:
  "load_mood_history Missing = Inr ([], PList [])
   \<and> load_mood_history Empty = Inr ([], PList [])
   \<and> load_mood_history Garbled = Inr ([CorruptWarning], PList [])
   \<and> load_mood_history (Json v) = Inr ([], v)"
  by (simp add: load_mood_history_def path_exists_def st_size_is_zero_def)

theorem load_mood_history_cases_witness:
  "path_exists (Json (PList [PDict [(''employee_id'', PStr ''E1''),
                                    (''anonymized_mood'', PStr ''abc'')]]))
   \<and> \<not> st_size_is_zero (Json (PList [PDict [(''employee_id'', PStr ''E1''),
                                            (''anonymized_mood'', PStr ''abc'')]]))
   \<and> load_mood_history (Json (PList [PDict [(''employee_id'', PStr ''E1''),
                                           (''anonymized_mood'', PStr ''abc'')]]))
       = Inr ([], PList [PDict [(''employee_id'', PStr ''E1''),
                               (''anonymized_mood'', PStr ''abc'')]])
   \<and> \<not> path_exists Missing
   \<and> load_mood_history Missing = Inr ([], PList [])"
  using load_mood_history_cases
    [of "PList [PDict [(''employee_id'', PStr ''E1''), (''anonymized_mood'', PStr ''abc'')]]"]
  by (simp add: path_exists_def st_size_is_zero_def)

subsection \<open>Main loop\<close>

lemma tasks_get_nonempty: "dflt \<noteq> [] \<Longrightarrow> tasks_get m dflt \<noteq> []"
  by (simp add: tasks_get_def tasks_def)

lemma recommend_task_total: "\<exists>s. recommend_task r m = Inr s"
  by (simp add: recommend_task_def random_choice_def tasks_get_nonempty)

lemma loop_body_total:
  "\<exists>w'. loop_body eid t w = Inr w'
     \<and> mood_history w' = mood_history w @ [mood_entry eid (detect_facial_emotion (faces t))]
     \<and> disk w' = snd (save_mood_history (fault t) (mood_history w') (disk w))"
proof -
  obtain s where "recommend_task (draw t) (detect_facial_emotion (faces t)) = Inr s"
    using recommend_task_total by blast
  then show ?thesis
    by (simp add: loop_body_def Let_def monitor_stress_eq split: prod.splits)
qed

lemma main_loop_total:
  "\<exists>w' moods. main_loop eid ts w = Inr w'
     \<and> mood_history w' = mood_history w @ map (mood_entry eid) moods"
proof (induction ts arbitrary: w)
  case Nil
  have "mood_history w = mood_history w @ map (mood_entry eid) []" by simp
  then show ?case by (metis main_loop.simps(1))
next
  case (Cons t ts)
  show ?case
  proof (cases "ret t")
    case False
    have "mood_history w = mood_history w @ map (mood_entry eid) []" by simp
    with False show ?thesis by (metis main_loop.simps(2))
  next
    case True
    from loop_body_total [of eid t w] obtain w1 where
      w1: "loop_body eid t w = Inr w1"
        "mood_history w1 = mood_history w @ [mood_entry eid (detect_facial_emotion (faces t))]"
      by blast
    show ?thesis
    proof (cases "key_q t")
      case q: True
      have "mood_history w1 = mood_history w @ map (mood_entry eid) [detect_facial_emotion (faces t)]"
        using w1(2) by simp
      moreover have "main_loop eid (t # ts) w = Inr w1"
        using True q w1(1) by simp
      ultimately show ?thesis by blast
    next
      case nq: False
      from Cons.IH [of w1] obtain w' moods where
        r: "main_loop eid ts w1 = Inr w'" "mood_history w' = mood_history w1 @ map (mood_entry eid) moods"
        by blast
      have "main_loop eid (t # ts) w = Inr w'"
        using True nq w1(1) r(1) by simp
      moreover have "mood_history w' = mood_history w @ map (mood_entry eid) (detect_facial_emotion (faces t) # moods)"
        using r(2) w1(2) by simp
      ultimately show ?thesis by blast
    qed
  qed
qed

lemma main_report_keeps_history:
  "main_report w = Inr w' \<Longrightarrow> mood_history w' = mood_history w \<and> disk w' = disk w"
  by (auto simp: main_report_def split: sum.splits)

lemma save_try_fails_iff:
  "(\<exists>e. snd (save_try flt log f) = Inl e)
   \<longleftrightarrow> (flt \<noteq> NoFault \<or> (\<exists>r\<in>set log. \<exists>e. project_entry r = Inl e))"
proof (cases "comprehension project_entry log")
  case (Inl e)
  have "\<exists>r\<in>set log. \<exists>e. project_entry r = Inl e"
  proof (rule ccontr)
    assume "\<not> (\<exists>r\<in>set log. \<exists>e. project_entry r = Inl e)"
    then have "list_all (\<lambda>x. project_entry x = Inr (projr (project_entry x))) log"
      by (auto simp: list_all_iff) (metis sum.collapse(2) sum.exhaust_sel)
    then have "comprehension project_entry log = Inr (map (\<lambda>x. projr (project_entry x)) log)"
      by (rule comprehension_Inr_map)
    with Inl show False by simp
  qed
  with Inl show ?thesis by (auto simp: save_try_def)
next
  case (Inr rs)
  from comprehension_Inr_all [OF Inr] have "\<forall>r\<in>set log. \<exists>y. project_entry r = Inr y"
    by (auto simp: list_all2_conv_all_nth in_set_conv_nth)
  then have "\<not> (\<exists>r\<in>set log. \<exists>e. project_entry r = Inl e)" by auto
  with Inr show ?thesis by (cases flt) (auto simp: save_try_def)
qed

lemma main_loop_grows:
  "(\<forall>t\<in>set ts. ret t \<and> \<not> key_q t) \<Longrightarrow>
   \<exists>w'. main_loop eid ts w = Inr w' \<and> length (mood_history w') = length (mood_history w) + length ts"
proof (induction ts arbitrary: w)
  case Nil
  show ?case by simp
next
  case (Cons t ts)
  from loop_body_total [of eid t w] obtain w1 where
    w1: "loop_body eid t w = Inr w1" "length (mood_history w1) = Suc (length (mood_history w))"
    by auto
  from Cons.prems have "\<forall>t\<in>set ts. ret t \<and> \<not> key_q t" by simp
  from Cons.IH [OF this, of w1] obtain w' where
    "main_loop eid ts w1 = Inr w'" "length (mood_history w') = length (mood_history w1) + length ts"
    by blast
  with w1 Cons.prems show ?case by simp
qed

text \<open>
  C6. Whatever leaves the body of the \<^verbatim>\<open>try\<close> in \<^verbatim>\<open>save_mood_history\<close>, an I/O error or
  a record that cannot be projected, is caught and printed as the error line; this happens
  exactly when the write is faulty or some record cannot be projected. The pass of the loop
  that called the save completes with the new record appended to the log, and the log grows by
  one record in each pass whatever happens to the file.
\<close>

theorem save_failure_reported_log_grows:
  "(snd (save_try flt log f) = Inl e \<longrightarrow>
      save_mood_history flt log f = ([SaveError e], fst (save_try flt log f)))
   \<and> ((\<exists>e. snd (save_try flt log f) = Inl e)
        \<longleftrightarrow> (flt \<noteq> NoFault \<or> (\<exists>r\<in>set log. \<exists>e. project_entry r = Inl e)))
   \<and> (\<exists>w'. loop_body eid t w = Inr w'
         \<and> mood_history w' = mood_history w @ [mood_entry eid (detect_facial_emotion (faces t))])
   \<and> ((\<forall>t\<in>set ts. ret t \<and> \<not> key_q t) \<longrightarrow>
        (\<exists>w'. main_loop eid ts w = Inr w'
           \<and> length (mood_history w') = length (mood_history w) + length ts))"
proof -
  have "save_mood_history flt log f = ([SaveError e], fst (save_try flt log f))"
    if "snd (save_try flt log f) = Inl e"
    using that by (cases "save_try flt log f") (simp add: save_mood_history_def)
  moreover have "\<exists>w'. loop_body eid t w = Inr w'
         \<and> mood_history w' = mood_history w @ [mood_entry eid (detect_facial_emotion (faces t))]"
    using loop_body_total [of eid t w] by blast
  ultimately show ?thesis
    using save_try_fails_iff [of flt log f] main_loop_grows [of ts eid w] by blast
qed

text \<open>
  A save whose \<^verbatim>\<open>open\<close> fails, and a run of two passes in which no save reaches the file.
\<close>

theorem save_failure_reported_log_grows_witness:
  "snd (save_try OpenFails
          [PDict [(''employee_id'', PStr ''E1''), (''anonymized_mood'', PStr ''abc'')]] Missing)
     = Inl OSError
   \<and> save_mood_history OpenFails
         [PDict [(''employee_id'', PStr ''E1''), (''anonymized_mood'', PStr ''abc'')]] Missing
       = ([SaveError OSError], Missing)
   \<and> (\<exists>w'. main_loop ''E1''
              [\<lparr>ret = True, faces = [''sad''], fault = WriteFailsMidway, draw = 0,
                 key_q = False\<rparr>,
               \<lparr>ret = True, faces = [], fault = OpenFails, draw = 1, key_q = False\<rparr>]
              \<lparr>mood_history = [], disk = Missing, console = []\<rparr> = Inr w'
         \<and> length (mood_history w') = 2)"
proof -
  have h1: "snd (save_try OpenFails
                   [PDict [(''employee_id'', PStr ''E1''), (''anonymized_mood'', PStr ''abc'')]]
                   Missing) = Inl OSError"
    "fst (save_try OpenFails
            [PDict [(''employee_id'', PStr ''E1''), (''anonymized_mood'', PStr ''abc'')]]
            Missing) = Missing"
    by (simp_all add: save_try_def project_entry_def)
  have h2: "\<forall>t\<in>set [\<lparr>ret = True, faces = [''sad''], fault = WriteFailsMidway, draw = 0,
                      key_q = False\<rparr>,
                   \<lparr>ret = True, faces = [], fault = OpenFails, draw = 1, key_q = False\<rparr>].
              ret t \<and> \<not> key_q t"
    by simp
  have h3: "length (mood_history \<lparr>mood_history = [], disk = Missing, console = []\<rparr>)
            + length [\<lparr>ret = True, faces = [''sad''], fault = WriteFailsMidway, draw = 0,
                        key_q = False\<rparr>,
                      \<lparr>ret = True, faces = [], fault = OpenFails, draw = 1, key_q = False\<rparr>]
            = 2"
    by simp
  show ?thesis
    using h1 h2 h3
      save_failure_reported_log_grows
        [of OpenFails
            "[PDict [(''employee_id'', PStr ''E1''), (''anonymized_mood'', PStr ''abc'')]]"
            Missing OSError "''E1''"
            "\<lparr>ret = True, faces = [], fault = OpenFails, draw = 1, key_q = False\<rparr>"
            "\<lparr>mood_history = [], disk = Missing, console = []\<rparr>"
            "[\<lparr>ret = True, faces = [''sad''], fault = WriteFailsMidway, draw = 0,
                key_q = False\<rparr>,
              \<lparr>ret = True, faces = [], fault = OpenFails, draw = 1, key_q = False\<rparr>]"]
    by metis
qed

text \<open>
  C8. Every record the loop appends is built from the employee id and the detected mood with
  \<^verbatim>\<open>anonymized_mood\<close> the digest of \<^verbatim>\<open>mood\<close>. A pass of the loop (append, save, stress
  check, recommendation) leaves the records that were in the log as they were and adds the new
  one at the end; so does any run of the loop; the report at the end leaves the log as it is.
\<close>

theorem records_created_with_digest_and_kept:
  "(\<exists>w' moods. main_loop eid ts w = Inr w'
      \<and> mood_history w' = mood_history w @ map (mood_entry eid) moods)
   \<and> (\<exists>w'. loop_body eid t w = Inr w'
        \<and> mood_history w' = mood_history w @ [mood_entry eid (detect_facial_emotion (faces t))])
   \<and> field ''employee_id'' (mood_entry eid m) = Some (PStr eid)
   \<and> field ''mood'' (mood_entry eid m) = Some (PStr m)
   \<and> field ''anonymized_mood'' (mood_entry eid m) = Some (PStr (anonymize_data m))
   \<and> (main_report w = Inr w'' \<longrightarrow> mood_history w'' = mood_history w)"
proof -
  have "\<exists>w'. loop_body eid t w = Inr w'
        \<and> mood_history w' = mood_history w @ [mood_entry eid (detect_facial_emotion (faces t))]"
    using loop_body_total [of eid t w] by blast
  moreover have "main_report w = Inr w'' \<longrightarrow> mood_history w'' = mood_history w"
    using main_report_keeps_history [of w w''] by blast
  moreover note main_loop_total [of eid ts w]
  ultimately show ?thesis by (simp add: mood_entry_def)
qed

theorem records_created_with_digest_and_kept_witness:
  "main_report \<lparr>mood_history = [mood_entry ''E1'' ''Sad'', PInt 0, mood_entry ''E2'' ''Sad''],
                disk = Missing, console = []\<rparr>
   = Inr \<lparr>mood_history = [mood_entry ''E1'' ''Sad'', PInt 0, mood_entry ''E2'' ''Sad''],
          disk = Missing, console = [BarChart [(PStr ''Sad'', 2, ''black'')]]\<rparr>
   \<and> mood_history \<lparr>mood_history = [mood_entry ''E1'' ''Sad'', PInt 0, mood_entry ''E2'' ''Sad''],
          disk = Missing, console = [BarChart [(PStr ''Sad'', 2, ''black'')]]\<rparr>
     = mood_history \<lparr>mood_history = [mood_entry ''E1'' ''Sad'', PInt 0, mood_entry ''E2'' ''Sad''],
                disk = Missing, console = []\<rparr>
   \<and> (\<exists>w' moods. main_loop ''E1''
          [\<lparr>ret = True, faces = [''sad''], fault = NoFault, draw = 0, key_q = False\<rparr>]
          \<lparr>mood_history = [mood_entry ''E1'' ''Sad'', PInt 0, mood_entry ''E2'' ''Sad''],
            disk = Missing, console = []\<rparr> = Inr w'
        \<and> mood_history w' = mood_history \<lparr>mood_history = [mood_entry ''E1'' ''Sad'', PInt 0, mood_entry ''E2'' ''Sad''],
            disk = Missing, console = []\<rparr> @ map (mood_entry ''E1'') moods)"
proof -
  have r: "main_report \<lparr>mood_history = [mood_entry ''E1'' ''Sad'', PInt 0, mood_entry ''E2'' ''Sad''],
                disk = Missing, console = []\<rparr>
   = Inr \<lparr>mood_history = [mood_entry ''E1'' ''Sad'', PInt 0, mood_entry ''E2'' ''Sad''],
          disk = Missing, console = [BarChart [(PStr ''Sad'', 2, ''black'')]]\<rparr>"
    by (simp add: main_report_def plot_team_mood_def mood_counts_def mood_entry_def colors_def)
  show ?thesis
    using r records_created_with_digest_and_kept
      [of "''E1''" "[\<lparr>ret = True, faces = [''sad''], fault = NoFault, draw = 0, key_q = False\<rparr>]"
          "\<lparr>mood_history = [mood_entry ''E1'' ''Sad'', PInt 0, mood_entry ''E2'' ''Sad''],
            disk = Missing, console = []\<rparr>"
          "\<lparr>ret = True, faces = [''sad''], fault = NoFault, draw = 0, key_q = False\<rparr>"
          "''Sad''"
          "\<lparr>mood_history = [mood_entry ''E1'' ''Sad'', PInt 0, mood_entry ''E2'' ''Sad''],
          disk = Missing, console = [BarChart [(PStr ''Sad'', 2, ''black'')]]\<rparr>"]
    by blast
qed

subsection \<open>Records that come back from the file\<close>

lemma two_field_no_mood: "two_field_record r \<Longrightarrow> \<not> py_in ''mood'' r \<and> field ''mood'' r = None"
  by (cases r) (auto simp: two_field_record_def map_of_eq_None_iff)

lemma silent_records:
  assumes "list_all two_field_record rs"
  shows "list_all (\<lambda>r. \<not> py_in ''mood'' r) rs"
    and "monitor_stress rs = Inr ([], PNone)"
    and "mood_counts rs = Inr []"
    and "plot_team_mood rs = Inr [NoHistoryToPlot] \<or> plot_team_mood rs = Inr [NoValidMoodData]"
proof -
  from assms show nm: "list_all (\<lambda>r. \<not> py_in ''mood'' r) rs"
    by (induction rs) (auto simp: two_field_no_mood)
  from assms have "filter sad_record xs = []" if "set xs \<subseteq> set rs" for xs
    using that by (auto simp: filter_empty_conv list_all_iff sad_record_def two_field_no_mood)
  then have "filter sad_record (last_records 5 rs) = []"
    by (simp add: last_records_def set_drop_subset)
  then show "monitor_stress rs = Inr ([], PNone)"
    by (simp add: monitor_stress_eq)
  from nm have "filter (\<lambda>entry. isinstance_dict entry \<and> py_in ''mood'' entry) rs = []"
    by (auto simp: filter_empty_conv list_all_iff)
  then show mc: "mood_counts rs = Inr []"
    by (simp add: mood_counts_def)
  then show "plot_team_mood rs = Inr [NoHistoryToPlot] \<or> plot_team_mood rs = Inr [NoValidMoodData]"
    by (simp add: plot_team_mood_def)
qed

lemma save_keeps_written_by_save:
  "written_by_save f \<Longrightarrow> written_by_save (snd (save_mood_history flt log f))"
  by (cases flt)
     (auto simp: save_file_by_projection split: sum.splits dest: comprehension_project_two_fields)

lemma save_ok_written_by_save:
  assumes "fst (save_mood_history flt log f) = [SaveOk]"
  shows "written_by_save (snd (save_mood_history flt log f))"
  using save_ok_projection [OF assms] by (simp add: save_file_by_projection)

lemma main_loop_keeps_written_by_save:
  "written_by_save (disk w) \<Longrightarrow> \<exists>w'. main_loop eid ts w = Inr w' \<and> written_by_save (disk w')"
proof (induction ts arbitrary: w)
  case Nil
  then show ?case by simp
next
  case (Cons t ts)
  from loop_body_total [of eid t w] obtain w1 where
    w1: "loop_body eid t w = Inr w1"
      "disk w1 = snd (save_mood_history (fault t) (mood_history w1) (disk w))"
    by blast
  with Cons.prems have d1: "written_by_save (disk w1)"
    by (simp add: save_keeps_written_by_save)
  from Cons.IH [OF d1] obtain w' where "main_loop eid ts w1 = Inr w'" "written_by_save (disk w')"
    by blast
  with w1 d1 Cons.prems show ?case by simp
qed

lemma load_written_by_save:
  "written_by_save d \<Longrightarrow>
   \<exists>printed rs. load_mood_history d = Inr (printed, PList rs) \<and> list_all two_field_record rs"
proof (cases d)
  case (Json v)
  assume "written_by_save d"
  with Json show ?thesis by (cases v) (simp_all add: load_Json)
qed (simp_all add: load_mood_history_def path_exists_def st_size_is_zero_def)

text \<open>
  C10. A file that only \<^verbatim>\<open>save_mood_history\<close> has written stays such a file through every
  save and every run of the loop, and a successful save always leaves such a file. The records
  loaded from it have exactly the fields \<^verbatim>\<open>employee_id\<close> and \<^verbatim>\<open>anonymized_mood\<close> and no
  \<^verbatim>\<open>mood\<close> field; on a history made of them the stress check prints no alert, the mood
  counts are empty and the report draws no chart.
\<close>

theorem stored_history_never_alerts:
  "(fst (save_mood_history flt log f) = [SaveOk] \<longrightarrow>
      written_by_save (snd (save_mood_history flt log f)))
   \<and> (written_by_save f \<longrightarrow> written_by_save (snd (save_mood_history flt log f)))
   \<and> (written_by_save (disk w) \<longrightarrow>
        (\<exists>w'. main_loop eid ts w = Inr w' \<and> written_by_save (disk w')))
   \<and> (written_by_save d \<longrightarrow>
        (\<exists>printed rs. load_mood_history d = Inr (printed, PList rs)
           \<and> list_all two_field_record rs
           \<and> list_all (\<lambda>r. \<not> py_in ''mood'' r) rs
           \<and> monitor_stress rs = Inr ([], PNone)
           \<and> mood_counts rs = Inr []
           \<and> (plot_team_mood rs = Inr [NoHistoryToPlot]
               \<or> plot_team_mood rs = Inr [NoValidMoodData])))"
proof -
  have "\<exists>printed rs. load_mood_history d = Inr (printed, PList rs)
           \<and> list_all two_field_record rs
           \<and> list_all (\<lambda>r. \<not> py_in ''mood'' r) rs
           \<and> monitor_stress rs = Inr ([], PNone)
           \<and> mood_counts rs = Inr []
           \<and> (plot_team_mood rs = Inr [NoHistoryToPlot]
               \<or> plot_team_mood rs = Inr [NoValidMoodData])"
    if "written_by_save d"
  proof -
    from load_written_by_save [OF that] obtain printed rs where
      l: "load_mood_history d = Inr (printed, PList rs)" and two: "list_all two_field_record rs"
      by blast
    from l two silent_records [OF two] show ?thesis by blast
  qed
  then show ?thesis
    using save_ok_written_by_save [of flt log f] save_keeps_written_by_save [of f flt log]
      main_loop_keeps_written_by_save [of w eid ts]
    by blast
qed

theorem stored_history_never_alerts_witness:
  "fst (save_mood_history NoFault [mood_entry ''E1'' ''Sad'', mood_entry ''E1'' ''Sad''] Missing)
     = [SaveOk]
   \<and> written_by_save
        (snd (save_mood_history NoFault [mood_entry ''E1'' ''Sad'', mood_entry ''E1'' ''Sad'']
                Missing))
   \<and> written_by_save Missing
   \<and> written_by_save (disk \<lparr>mood_history = [], disk = Missing, console = []\<rparr>)
   \<and> (\<exists>w'. main_loop ''E1''
              [\<lparr>ret = True, faces = [''sad''], fault = NoFault, draw = 0, key_q = False\<rparr>]
              \<lparr>mood_history = [], disk = Missing, console = []\<rparr> = Inr w'
          \<and> written_by_save (disk w'))
   \<and> written_by_save
        (Json (PList
           [PDict [(''employee_id'', PStr ''E1''), (''anonymized_mood'', PStr (anonymize_data ''Sad''))],
            PDict [(''employee_id'', PStr ''E1''), (''anonymized_mood'', PStr (anonymize_data ''Sad''))],
            PDict [(''employee_id'', PStr ''E1''), (''anonymized_mood'', PStr (anonymize_data ''Sad''))]]))
   \<and> (\<exists>printed rs.
         load_mood_history
           (Json (PList
              [PDict [(''employee_id'', PStr ''E1''), (''anonymized_mood'', PStr (anonymize_data ''Sad''))],
               PDict [(''employee_id'', PStr ''E1''), (''anonymized_mood'', PStr (anonymize_data ''Sad''))],
               PDict [(''employee_id'', PStr ''E1''), (''anonymized_mood'', PStr (anonymize_data ''Sad''))]]))
           = Inr (printed, PList rs)
         \<and> monitor_stress rs = Inr ([], PNone)
         \<and> mood_counts rs = Inr [])"
proof -
  have h1: "fst (save_mood_history NoFault [mood_entry ''E1'' ''Sad'', mood_entry ''E1'' ''Sad'']
                   Missing) = [SaveOk]"
    by (simp add: save_mood_history_def save_try_def project_entry_def mood_entry_def)
  have h2: "written_by_save Missing"
    "written_by_save (disk \<lparr>mood_history = [], disk = Missing, console = []\<rparr>)"
    by simp_all
  have h3: "written_by_save
        (Json (PList
           [PDict [(''employee_id'', PStr ''E1''), (''anonymized_mood'', PStr (anonymize_data ''Sad''))],
            PDict [(''employee_id'', PStr ''E1''), (''anonymized_mood'', PStr (anonymize_data ''Sad''))],
            PDict [(''employee_id'', PStr ''E1''), (''anonymized_mood'', PStr (anonymize_data ''Sad''))]]))"
    by (simp add: two_field_record_def)
  show ?thesis
    using h1 h2 h3
      stored_history_never_alerts
        [of NoFault "[mood_entry ''E1'' ''Sad'', mood_entry ''E1'' ''Sad'']" Missing
            "\<lparr>mood_history = [], disk = Missing, console = []\<rparr>" "''E1''"
            "[\<lparr>ret = True, faces = [''sad''], fault = NoFault, draw = 0, key_q = False\<rparr>]"
            "Json (PList
              [PDict [(''employee_id'', PStr ''E1''), (''anonymized_mood'', PStr (anonymize_data ''Sad''))],
               PDict [(''employee_id'', PStr ''E1''), (''anonymized_mood'', PStr (anonymize_data ''Sad''))],
               PDict [(''employee_id'', PStr ''E1''), (''anonymized_mood'', PStr (anonymize_data ''Sad''))]])"]
    by blast
qed

end
